theory Spec2Isabelle
  imports Complex_Main "HOL-Library.Word"
begin

section \<open>JavaScript values used by the PixelArt page\<close>

text \<open>
  The page computes with JavaScript numbers. Finite values are modelled as exact
  rationals (rounding of IEEE doubles is not modelled); the two non-finite results that
  the code can produce, a division by zero and an arithmetic operation on
  \<^verbatim>\<open>undefined\<close>, are kept as values of their own, so that no HOL convention
  (\<open>x / 0 = 0\<close>, \<open>xs ! i\<close> out of range) stands in for them.
\<close>

datatype jsnum = Num rat | PosInf | NegInf | NaN

text \<open>\<^verbatim>\<open>a / b\<close> on JavaScript numbers (no negative zero arises in this program).\<close>

fun js_div :: "jsnum \<Rightarrow> jsnum \<Rightarrow> jsnum" where
  "js_div NaN _ = NaN"
| "js_div _ NaN = NaN"
| "js_div (Num a) (Num b) =
     (if b = 0 then (if a = 0 then NaN else if 0 < a then PosInf else NegInf)
      else Num (a / b))"
| "js_div (Num a) PosInf = Num 0"
| "js_div (Num a) NegInf = Num 0"
| "js_div PosInf (Num b) = (if 0 \<le> b then PosInf else NegInf)"
| "js_div NegInf (Num b) = (if 0 \<le> b then NegInf else PosInf)"
| "js_div _ _ = NaN"

text \<open>\<^verbatim>\<open>a * b\<close> on JavaScript numbers.\<close>

fun js_mul :: "jsnum \<Rightarrow> jsnum \<Rightarrow> jsnum" where
  "js_mul NaN _ = NaN"
| "js_mul _ NaN = NaN"
| "js_mul (Num a) (Num b) = Num (a * b)"
| "js_mul (Num a) PosInf = (if a = 0 then NaN else if 0 < a then PosInf else NegInf)"
| "js_mul (Num a) NegInf = (if a = 0 then NaN else if 0 < a then NegInf else PosInf)"
| "js_mul PosInf (Num b) = (if b = 0 then NaN else if 0 < b then PosInf else NegInf)"
| "js_mul NegInf (Num b) = (if b = 0 then NaN else if 0 < b then NegInf else PosInf)"
| "js_mul PosInf PosInf = PosInf"
| "js_mul NegInf NegInf = PosInf"
| "js_mul PosInf NegInf = NegInf"
| "js_mul NegInf PosInf = NegInf"

text \<open>\<^verbatim>\<open>a > b\<close> on JavaScript numbers: every comparison with NaN is false.\<close>

fun js_gt :: "jsnum \<Rightarrow> jsnum \<Rightarrow> bool" where
  "js_gt NaN _ = False"
| "js_gt _ NaN = False"
| "js_gt (Num a) (Num b) = (b < a)"
| "js_gt (Num a) PosInf = False"
| "js_gt (Num a) NegInf = True"
| "js_gt PosInf PosInf = False"
| "js_gt PosInf _ = True"
| "js_gt NegInf _ = False"

section \<open>Data model\<close>

text \<open>
  \<^verbatim>\<open>new THREE.Color(r, g, b)\<close> stores the three channels it is given.
  \<^verbatim>\<open>PixelInfo\<close> has the fields \<^verbatim>\<open>x\<close>, \<^verbatim>\<open>y\<close>, \<^verbatim>\<open>z\<close> and
  \<^verbatim>\<open>color\<close>; the three coordinates are named \<open>pixel_x\<close>, \<open>pixel_y\<close>, \<open>pixel_z\<close>
  here, so that \<open>x\<close> and \<open>y\<close> stay free for the loop counters of the sampler.
\<close>

datatype Color = Color jsnum jsnum jsnum

record PixelInfo =
  pixel_x :: rat
  pixel_y :: rat
  pixel_z :: rat
  color :: Color

text \<open>An element of the \<^verbatim>\<open>Uint8ClampedArray\<close> returned by \<^verbatim>\<open>getImageData\<close>.\<close>

type_synonym byte = "8 word"

datatype error = Error string | TypeError | DOMException string

section \<open>The image sampler \<^verbatim>\<open>createPixelData\<close>\<close>

text \<open>\<^verbatim>\<open>data[idx]\<close>: a typed array yields \<^verbatim>\<open>undefined\<close> (\<open>None\<close>) outside its range.\<close>

definition data_at :: "byte list \<Rightarrow> nat \<Rightarrow> byte option" where
  "data_at data idx = (if idx < length data then Some (data ! idx) else None)"

text \<open>\<^verbatim>\<open>a < 30\<close>: the comparison is false when \<^verbatim>\<open>a\<close> is \<^verbatim>\<open>undefined\<close>.\<close>

definition alpha_lt :: "byte option \<Rightarrow> nat \<Rightarrow> bool" where
  "alpha_lt a k = (case a of None \<Rightarrow> False | Some v \<Rightarrow> unat v < k)"

text \<open>\<^verbatim>\<open>v / 255\<close>: NaN when \<^verbatim>\<open>v\<close> is \<^verbatim>\<open>undefined\<close>.\<close>

definition channel :: "byte option \<Rightarrow> jsnum" where
  "channel v = (case v of None \<Rightarrow> NaN | Some c \<Rightarrow> Num (of_nat (unat c) / 255))"

text \<open>
  The body of the inner loop \<^verbatim>\<open>for (let x = 0; x < targetWidth; x++)\<close>. The loop state
  is the counter \<open>x\<close>, the read position \<open>idx\<close> and the array \<open>result\<close>.
  \<^verbatim>\<open>targetWidth\<close> and \<^verbatim>\<open>targetHeight\<close> are the numbers the page passes on from its
  two number inputs: finite, but not necessarily whole or positive.
\<close>

function inner_loop ::
  "byte list \<Rightarrow> rat \<Rightarrow> rat \<Rightarrow> nat \<Rightarrow> nat \<Rightarrow> nat \<Rightarrow> PixelInfo list \<Rightarrow> nat \<times> PixelInfo list"
where
  "inner_loop data targetWidth targetHeight y x idx result =
     (if of_nat x < targetWidth then
        (let r = data_at data idx;
             g = data_at data (idx + 1);
             b = data_at data (idx + 2);
             a = data_at data (idx + 3);
             idx' = idx + 4
         in if alpha_lt a 30
            then inner_loop data targetWidth targetHeight y (x + 1) idx' result
            else inner_loop data targetWidth targetHeight y (x + 1) idx'
                   (result @
                    [\<lparr>pixel_x = of_nat x - targetWidth / 2,
                      pixel_y = - of_nat y + targetHeight / 2,
                      pixel_z = 0,
                      color = Color (channel r) (channel g) (channel b)\<rparr>]))
      else (idx, result))"
  by pat_completeness auto
termination
  by (relation "measure (\<lambda>(data, targetWidth, targetHeight, y, x, idx, result).
                  nat \<lceil>targetWidth\<rceil> - x)")
     (auto intro!: diff_less_mono2 simp: zless_nat_eq_int_zless less_ceiling_iff)

declare inner_loop.simps [simp del]

text \<open>The outer loop \<^verbatim>\<open>for (let y = 0; y < targetHeight; y++)\<close>.\<close>

function outer_loop ::
  "byte list \<Rightarrow> rat \<Rightarrow> rat \<Rightarrow> nat \<Rightarrow> nat \<Rightarrow> PixelInfo list \<Rightarrow> PixelInfo list"
where
  "outer_loop data targetWidth targetHeight y idx result =
     (if of_nat y < targetHeight then
        (case inner_loop data targetWidth targetHeight y 0 idx result of
           (idx', result') \<Rightarrow> outer_loop data targetWidth targetHeight (y + 1) idx' result')
      else result)"
  by pat_completeness auto
termination
  by (relation "measure (\<lambda>(data, targetWidth, targetHeight, y, idx, result).
                  nat \<lceil>targetHeight\<rceil> - y)")
     (auto intro!: diff_less_mono2 simp: zless_nat_eq_int_zless less_ceiling_iff)

declare outer_loop.simps [simp del]

text \<open>
  The 2D context of the offscreen canvas is what the platform gives. \<open>ctx img w h\<close> stands
  for \<^verbatim>\<open>drawImage(img, 0, 0, w, h)\<close> followed by \<^verbatim>\<open>getImageData(0, 0, w, h)\<close>: it is
  the \<^verbatim>\<open>data\<close> array read back, or the name of the \<^verbatim>\<open>DOMException\<close> that one of the
  two calls throws. \<^verbatim>\<open>getContext("2d")\<close> may return \<^verbatim>\<open>null\<close> (\<open>None\<close>). The sampler has
  no handler, so an exception of the platform ends it.
\<close>

type_synonym 'img context2d = "'img \<Rightarrow> rat \<Rightarrow> rat \<Rightarrow> string + byte list"

definition createPixelData ::
  "'img context2d option \<Rightarrow> 'img \<Rightarrow> rat \<Rightarrow> rat \<Rightarrow> error + PixelInfo list"
where
  "createPixelData ctx img targetWidth targetHeight =
     (case ctx of
        None \<Rightarrow> Inl (Error ''No 2D context available'')
      | Some c \<Rightarrow>
          (case c img targetWidth targetHeight of
             Inl name \<Rightarrow> Inl (DOMException name)
           | Inr data \<Rightarrow> Inr (outer_loop data targetWidth targetHeight 0 0 [])))"

text \<open>
  A context that behaves as the HTML standard lays down for \<^verbatim>\<open>getImageData\<close>: the two
  sizes are converted to integers by dropping the fraction, a size of 0 raises
  \<^verbatim>\<open>IndexSizeError\<close>, and otherwise the data holds four bytes for each cell of the
  rectangle. \<open>raster img sw sh\<close> is what the canvas holds once the image is drawn at
  \<open>sw\<close> by \<open>sh\<close> cells.
\<close>

definition canvas_context :: "('img \<Rightarrow> nat \<Rightarrow> nat \<Rightarrow> byte list) \<Rightarrow> 'img context2d" where
  "canvas_context raster img w h =
     (let sw = nat \<lfloor>\<bar>w\<bar>\<rfloor>; sh = nat \<lfloor>\<bar>h\<bar>\<rfloor>
      in if sw = 0 \<or> sh = 0 then Inl ''IndexSizeError''
         else Inr (take (4 * sw * sh) (raster img sw sh @ replicate (4 * sw * sh) 0)))"

text \<open>
  Closed form of the double loop, used to state what the sampler returns: the record of
  the cell in column \<open>x\<close> of row \<open>y\<close> whose four bytes start at \<open>idx\<close>, and the records
  of one row whose bytes start at \<open>base\<close>.
\<close>

definition sample_cell :: "byte list \<Rightarrow> rat \<Rightarrow> rat \<Rightarrow> nat \<Rightarrow> nat \<Rightarrow> nat \<Rightarrow> PixelInfo" where
  "sample_cell data targetWidth targetHeight y x idx =
     \<lparr>pixel_x = of_nat x - targetWidth / 2,
      pixel_y = - of_nat y + targetHeight / 2,
      pixel_z = 0,
      color = Color (channel (data_at data idx)) (channel (data_at data (idx + 1)))
                (channel (data_at data (idx + 2)))\<rparr>"

definition row_cells ::
  "byte list \<Rightarrow> rat \<Rightarrow> rat \<Rightarrow> nat \<Rightarrow> nat \<Rightarrow> nat list \<Rightarrow> PixelInfo list"
where
  "row_cells data targetWidth targetHeight y base xs =
     map (\<lambda>x. sample_cell data targetWidth targetHeight y x (base + 4 * x))
       (filter (\<lambda>x. \<not> alpha_lt (data_at data (base + 4 * x + 3)) 30) xs)"

text \<open>
  Row-major RGBA layout of the image data: the bytes of cell \<open>(x, y)\<close> of a grid of width
  \<open>w\<close> start at \<open>cell_idx w x y\<close>, and its alpha byte is the fourth of them.
\<close>

definition cell_idx :: "nat \<Rightarrow> nat \<Rightarrow> nat \<Rightarrow> nat" where
  "cell_idx w x y = 4 * (y * w + x)"


text \<open>
  The number of passes of a loop \<^verbatim>\<open>for (let i = 0; i < n; i++)\<close>: \<open>n\<close> rounded up, and
  none when \<open>n\<close> is not positive.
\<close>

definition passes :: "rat \<Rightarrow> nat" where
  "passes n = nat \<lceil>n\<rceil>"

text \<open>What the two loops return, row by row, for the image data \<open>data\<close>.\<close>

definition sampled :: "byte list \<Rightarrow> rat \<Rightarrow> rat \<Rightarrow> PixelInfo list" where
  "sampled data w h =
     concat (map (\<lambda>y. row_cells data w h y (4 * (y * passes w)) [0..<passes w])
               [0..<passes h])"

text \<open>
  The image data of a 2 by 2 grid whose cells are opaque red, opaque green, opaque blue
  and transparent black.
\<close>

definition example_image :: "byte list" where
  "example_image = [255, 0, 0, 255,  0, 255, 0, 255,  0, 0, 255, 255,  0, 0, 0, 0]"

text \<open>The image data of a 2 by 1 grid whose two cells are opaque (red, green).\<close>

definition opaque_row :: "byte list" where
  "opaque_row = [255, 0, 0, 255,  0, 255, 0, 255]"

text \<open>Canvases that hold these two images, whatever the image drawn and the size asked.\<close>

definition example_raster :: "unit \<Rightarrow> nat \<Rightarrow> nat \<Rightarrow> byte list" where
  "example_raster img sw sh = example_image"


section \<open>The grid component \<^verbatim>\<open>PixelGrid\<close>\<close>

definition ANIMATION_TIME :: rat where
  "ANIMATION_TIME = 3"

text \<open>A position in the scene, or a scatter target: the components \<open>(x, y, z)\<close>.\<close>

type_synonym vec3 = "rat \<times> rat \<times> rat"

text \<open>
  The component's props, its state (\<open>scales\<close>), its refs, and the positions of the
  children of the group that \<open>groupRef\<close> points to (\<open>None\<close> while the ref is
  \<^verbatim>\<open>null\<close>). The \<open>pixels\<close> array is part of the record although no handler below
  writes to it: JavaScript would allow a handler to, and the record lets a theorem say
  that none does. An element of \<open>scales\<close> is \<open>None\<close> where the JavaScript array has a
  hole. The grid is modelled for widths that are whole numbers.
\<close>

record PixelGrid =
  pixelWidth :: nat
  pixelHeight :: nat
  pixels :: "PixelInfo list"
  animation :: string
  fileChangeCount :: nat
  scales :: "nat option list"
  scaleProgressRef :: rat
  batchIndexRef :: nat
  prevFileChangeCountRef :: nat
  lastAnimationRef :: string
  animationProgressRef :: rat
  scatterPositionsRef :: "vec3 list"
  groupRef :: "vec3 list option"

text \<open>\<^verbatim>\<open>Math.sin\<close> and \<^verbatim>\<open>Math.PI\<close>, as the platform provides them.\<close>

record Math =
  Math_sin :: "rat \<Rightarrow> rat"
  Math_PI :: rat

text \<open>\<^verbatim>\<open>xs[i] = v\<close> on a JavaScript array: a write past the end extends the array.\<close>

definition js_store :: "'a option list \<Rightarrow> nat \<Rightarrow> 'a \<Rightarrow> 'a option list" where
  "js_store xs i v =
     (if i < length xs then xs[i := Some v]
      else xs @ replicate (i - length xs) None @ [Some v])"

text \<open>\<^verbatim>\<open>xs[i]\<close> on a JavaScript array: \<^verbatim>\<open>undefined\<close> past the end.\<close>

definition js_nth :: "'a option list \<Rightarrow> nat \<Rightarrow> 'a option" where
  "js_nth xs i = (if i < length xs then xs ! i else None)"

text \<open>The effect that resets the reveal state when the file-change counter has moved.\<close>

definition useEffect_reset :: "PixelGrid \<Rightarrow> PixelGrid" where
  "useEffect_reset g =
     (if fileChangeCount g \<noteq> prevFileChangeCountRef g
      then g\<lparr>scales := replicate (length (pixels g)) (Some 0),
             scaleProgressRef := 0,
             batchIndexRef := 0,
             prevFileChangeCountRef := fileChangeCount g\<rparr>
      else g)"

text \<open>\<^verbatim>\<open>for (let i = startIndex; i < endIndex; i++) newScales[i] = 1\<close>.\<close>

function fill_loop :: "nat option list \<Rightarrow> nat \<Rightarrow> nat \<Rightarrow> nat option list" where
  "fill_loop newScales i endIndex =
     (if i < endIndex then fill_loop (js_store newScales i 1) (i + 1) endIndex
      else newScales)"
  by pat_completeness auto
termination
  by (relation "measure (\<lambda>(newScales, i, endIndex). endIndex - i)") auto

declare fill_loop.simps [simp del]

text \<open>\<^verbatim>\<open>pixels.length / pixelWidth\<close>, the number of batches of the reveal.\<close>

definition batch_count :: "PixelGrid \<Rightarrow> jsnum" where
  "batch_count g = js_div (Num (of_nat (length (pixels g)))) (Num (of_nat (pixelWidth g)))"

text \<open>
  \<^verbatim>\<open>batchIndexRef.current * (ANIMATION_TIME / (pixels.length / pixelWidth))\<close>, the time
  at which the current batch is due.
\<close>

definition reveal_threshold :: "PixelGrid \<Rightarrow> jsnum" where
  "reveal_threshold g =
     js_mul (Num (of_nat (batchIndexRef g))) (js_div (Num ANIMATION_TIME) (batch_count g))"

text \<open>
  The first frame handler (the reveal). A state update made by \<^verbatim>\<open>setScales\<close> is taken
  to be in place when the next frame runs.
\<close>

definition useFrame_reveal :: "rat \<Rightarrow> PixelGrid \<Rightarrow> PixelGrid" where
  "useFrame_reveal delta g =
     (if js_gt (Num (of_nat (batchIndexRef g))) (batch_count g) then g
      else
        (let g1 = g\<lparr>scaleProgressRef := scaleProgressRef g + delta\<rparr>;
             threshold = reveal_threshold g1
         in if js_gt (Num (scaleProgressRef g1)) threshold
            then
              (let newScales = scales g1;
                   startIndex = batchIndexRef g1 * pixelWidth g1;
                   endIndex = min (startIndex + pixelWidth g1) (length (pixels g1))
               in g1\<lparr>scales := fill_loop newScales startIndex endIndex,
                      batchIndexRef := batchIndexRef g1 + 1\<rparr>)
            else g1))"

text \<open>
  \<^verbatim>\<open>groupRef.current?.children[i]?.position.set(x, y, z)\<close>: nothing happens when the
  ref is \<^verbatim>\<open>null\<close> or the group has no child \<open>i\<close>.
\<close>

definition set_position :: "nat \<Rightarrow> vec3 \<Rightarrow> PixelGrid \<Rightarrow> PixelGrid" where
  "set_position i v g =
     (case groupRef g of
        None \<Rightarrow> g
      | Some children \<Rightarrow>
          if i < length children then g\<lparr>groupRef := Some (children[i := v])\<rparr> else g)"

text \<open>
  The callback of \<^verbatim>\<open>pixels.forEach\<close> in the second frame handler. Reading a component
  of \<^verbatim>\<open>scatterPositionsRef.current[i]\<close> when the array has no element \<open>i\<close> raises a
  \<^verbatim>\<open>TypeError\<close>.
\<close>

definition move_pixel :: "Math \<Rightarrow> rat \<Rightarrow> PixelInfo \<Rightarrow> nat \<Rightarrow> PixelGrid \<Rightarrow> error + PixelGrid" where
  "move_pixel M smoothProgress pixel i g =
     (if animation g = ''explosion_start'' then
        (if i < length (scatterPositionsRef g) then
           (case scatterPositionsRef g ! i of (sx, sy, sz) \<Rightarrow>
              Inr (set_position i
                (sx * smoothProgress + pixel_x pixel * (1 - smoothProgress),
                 sy * smoothProgress + pixel_y pixel * (1 - smoothProgress),
                 sz * smoothProgress + pixel_z pixel * (1 - smoothProgress)) g))
         else Inl TypeError)
      else if animation g = ''explosion_end'' then
        (if i < length (scatterPositionsRef g) then
           (case scatterPositionsRef g ! i of (sx, sy, sz) \<Rightarrow>
              Inr (set_position i
                (sx * (1 - smoothProgress) + pixel_x pixel * smoothProgress,
                 sy * (1 - smoothProgress) + pixel_y pixel * smoothProgress,
                 sz * (1 - smoothProgress) + pixel_z pixel * smoothProgress) g))
         else Inl TypeError)
      else if animation g = ''wave_start'' then
        Inr (set_position i
          (pixel_x pixel, pixel_y pixel,
           Math_sin M ((pixel_x pixel + pixel_z pixel + animationProgressRef g * 10) * (3 / 10))
             * 5 * smoothProgress) g)
      else if animation g = ''wave_end'' then
        Inr (set_position i
          (pixel_x pixel, pixel_y pixel,
           Math_sin M
             ((pixel_x pixel + pixel_z pixel + (1 - animationProgressRef g) * 10) * (3 / 10))
             * 5 * (1 - smoothProgress)) g)
      else Inr (set_position i (pixel_x pixel, pixel_y pixel, pixel_z pixel) g))"

text \<open>\<^verbatim>\<open>pixels.forEach((pixel, i) => ...)\<close>, from index \<open>i\<close> on; an exception ends it.\<close>

fun forEach_pixels ::
  "Math \<Rightarrow> rat \<Rightarrow> PixelInfo list \<Rightarrow> nat \<Rightarrow> PixelGrid \<Rightarrow> error + PixelGrid"
where
  "forEach_pixels M smoothProgress [] i g = Inr g"
| "forEach_pixels M smoothProgress (pixel # rest) i g =
     (case move_pixel M smoothProgress pixel i g of
        Inl e \<Rightarrow> Inl e
      | Inr g' \<Rightarrow> forEach_pixels M smoothProgress rest (i + 1) g')"

text \<open>
  The second frame handler (explosion and wave), in its three steps: the progress starts
  again from 0 when the mode has changed; unless the mode is \<^verbatim>\<open>"default"\<close>, the
  progress advances by \<open>delta / ANIMATION_TIME\<close> and stops at 1; every pixel is then placed.
\<close>

definition restart_progress :: "PixelGrid \<Rightarrow> PixelGrid" where
  "restart_progress g =
     (if animation g \<noteq> lastAnimationRef g
      then g\<lparr>lastAnimationRef := animation g, animationProgressRef := 0\<rparr>
      else g)"

definition advance_progress :: "rat \<Rightarrow> PixelGrid \<Rightarrow> PixelGrid" where
  "advance_progress delta g =
     (if animationProgressRef g < 1
      then
        (let g' = g\<lparr>animationProgressRef := animationProgressRef g + delta / ANIMATION_TIME\<rparr>
         in if 1 < animationProgressRef g' then g'\<lparr>animationProgressRef := 1\<rparr> else g')
      else g)"

definition useFrame_move :: "Math \<Rightarrow> rat \<Rightarrow> PixelGrid \<Rightarrow> error + PixelGrid" where
  "useFrame_move M delta g =
     (let g1 = restart_progress g
      in if animation g1 = ''default'' then Inr g1
         else
           (let g2 = advance_progress delta g1;
                smoothProgress = Math_sin M (animationProgressRef g2 * Math_PI M / 2)
            in forEach_pixels M smoothProgress (pixels g2) 0 g2))"

text \<open>
  One rendered frame runs both handlers, in the order the component registers them; a run
  of frames stops at the first exception.
\<close>

definition render_frame :: "Math \<Rightarrow> rat \<Rightarrow> PixelGrid \<Rightarrow> error + PixelGrid" where
  "render_frame M delta g = useFrame_move M delta (useFrame_reveal delta g)"

fun render_frames :: "Math \<Rightarrow> rat list \<Rightarrow> PixelGrid \<Rightarrow> error + PixelGrid" where
  "render_frames M [] g = Inr g"
| "render_frames M (delta # deltas) g =
     (case render_frame M delta g of
        Inl e \<Rightarrow> Inl e
      | Inr g' \<Rightarrow> render_frames M deltas g')"

text \<open>
  What the grid becomes when the page renders it again with a new prop. When the image
  source or the size changes, the page calls \<^verbatim>\<open>setFileChangeCount\<close> at once and
  \<^verbatim>\<open>setPixels\<close> later, from the \<^verbatim>\<open>onload\<close> callback of the image, so the new counter
  reaches the grid before the new pixels do. The effect that resets the reveal runs after
  a render in which one of its dependencies (the counter, \<^verbatim>\<open>pixels.length\<close>, the sizes)
  has changed. With new pixels the second effect stores new random targets (\<open>scatter\<close>),
  and \<open>children\<close> is the scene as it is rendered for them.
\<close>

definition render_fileChangeCount :: "nat \<Rightarrow> PixelGrid \<Rightarrow> PixelGrid" where
  "render_fileChangeCount n g =
     (let g1 = g\<lparr>fileChangeCount := n\<rparr>
      in if n \<noteq> fileChangeCount g then useEffect_reset g1 else g1)"

definition render_pixels ::
  "PixelInfo list \<Rightarrow> vec3 list \<Rightarrow> vec3 list option \<Rightarrow> PixelGrid \<Rightarrow> PixelGrid"
where
  "render_pixels ps scatter children g =
     (let g1 = g\<lparr>pixels := ps\<rparr>;
          g2 = (if length ps \<noteq> length (pixels g) then useEffect_reset g1 else g1)
      in g2\<lparr>scatterPositionsRef := scatter, groupRef := children\<rparr>)"

text \<open>
  The state of the reveal between a reset and the next one: the cells of the batches
  revealed so far are shown (scale 1), every other cell is hidden (scale 0).
\<close>

definition reveal_inv :: "PixelGrid \<Rightarrow> bool" where
  "reveal_inv g =
     (scales g =
        map (\<lambda>i. if i < batchIndexRef g * pixelWidth g then Some 1 else Some 0)
          [0..<length (pixels g)])"

text \<open>
  The grid without what the second frame handler writes: the positions in the scene
  (\<open>ungrouped\<close>), and these together with the two refs of the handler (\<open>reveal_part\<close>).
\<close>

definition ungrouped :: "PixelGrid \<Rightarrow> PixelGrid" where
  "ungrouped g = g\<lparr>groupRef := None\<rparr>"

definition reveal_part :: "PixelGrid \<Rightarrow> PixelGrid" where
  "reveal_part g = g\<lparr>lastAnimationRef := [], animationProgressRef := 0, groupRef := None\<rparr>"

text \<open>The position that the wave modes give to a pixel.\<close>

definition wave_target :: "Math \<Rightarrow> rat \<Rightarrow> PixelGrid \<Rightarrow> PixelInfo \<Rightarrow> vec3" where
  "wave_target M smoothProgress g pixel =
     (pixel_x pixel, pixel_y pixel,
      if animation g = ''wave_start''
      then Math_sin M ((pixel_x pixel + pixel_z pixel + animationProgressRef g * 10) * (3 / 10))
             * 5 * smoothProgress
      else Math_sin M
             ((pixel_x pixel + pixel_z pixel + (1 - animationProgressRef g) * 10) * (3 / 10))
             * 5 * (1 - smoothProgress))"

definition is_wave :: "PixelGrid \<Rightarrow> bool" where
  "is_wave g = (animation g = ''wave_start'' \<or> animation g = ''wave_end'')"

text \<open>
  The positions of the children \<open>ch\<close> once the wave has placed the pixels \<open>ps\<close>, the first
  of them at index \<open>i\<close>.
\<close>

definition place_wave ::
  "Math \<Rightarrow> rat \<Rightarrow> PixelGrid \<Rightarrow> PixelInfo list \<Rightarrow> nat \<Rightarrow> vec3 list \<Rightarrow> vec3 list"
where
  "place_wave M sp g ps i ch =
     map (\<lambda>j. if i \<le> j \<and> j < i + length ps then wave_target M sp g (ps ! (j - i)) else ch ! j)
       [0..<length ch]"

text \<open>
  A grid to run the handlers on: the three records sampled from \<open>example_image\<close>, in a
  grid of width 2, before any batch is revealed and with a file-change counter that has
  just moved; and a stand-in for the platform's \<^verbatim>\<open>Math\<close>.
\<close>

definition example_grid :: PixelGrid where
  "example_grid =
     \<lparr>pixelWidth = 2,
      pixelHeight = 2,
      pixels =
        [\<lparr>pixel_x = -1, pixel_y = 1, pixel_z = 0, color = Color (Num 1) (Num 0) (Num 0)\<rparr>,
         \<lparr>pixel_x = 0, pixel_y = 1, pixel_z = 0, color = Color (Num 0) (Num 1) (Num 0)\<rparr>,
         \<lparr>pixel_x = -1, pixel_y = 0, pixel_z = 0, color = Color (Num 0) (Num 0) (Num 1)\<rparr>],
      animation = ''default'',
      fileChangeCount = 1,
      scales = [Some 0, Some 0, Some 0],
      scaleProgressRef = 0,
      batchIndexRef = 0,
      prevFileChangeCountRef = 0,
      lastAnimationRef = ''default'',
      animationProgressRef = 0,
      scatterPositionsRef = [(10, 20, 30), (-10, 5, 0), (0, 0, -40)],
      groupRef = Some [(-1, 1, 0), (0, 1, 0), (-1, 0, 0)]\<rparr>"

definition example_math :: Math where
  "example_math = \<lparr>Math_sin = (\<lambda>x. x), Math_PI = 22 / 7\<rparr>"

text \<open>
  A change of image on a grid that shows the three cells of \<open>example_grid\<close> fully
  revealed: the counter goes from 1 to 2, one frame of a sixtieth of a second is
  rendered, and then the four cells of an opaque 2 by 2 image arrive.
\<close>

definition revealed_grid :: PixelGrid where
  "revealed_grid =
     example_grid\<lparr>scales := [Some 1, Some 1, Some 1],
                   scaleProgressRef := 121 / 60,
                   batchIndexRef := 2,
                   prevFileChangeCountRef := 1\<rparr>"

definition four_pixels :: "PixelInfo list" where
  "four_pixels =
     [\<lparr>pixel_x = -1, pixel_y = 1, pixel_z = 0, color = Color (Num 1) (Num 0) (Num 0)\<rparr>,
      \<lparr>pixel_x = 0, pixel_y = 1, pixel_z = 0, color = Color (Num 0) (Num 1) (Num 0)\<rparr>,
      \<lparr>pixel_x = -1, pixel_y = 0, pixel_z = 0, color = Color (Num 0) (Num 0) (Num 1)\<rparr>,
      \<lparr>pixel_x = 0, pixel_y = 0, pixel_z = 0, color = Color (Num 1) (Num 1) (Num 1)\<rparr>]"

definition image_change :: "rat list \<Rightarrow> error + PixelGrid" where
  "image_change deltas =
     (case render_frames example_math deltas (render_fileChangeCount 2 revealed_grid) of
        Inl e \<Rightarrow> Inl e
      | Inr g \<Rightarrow>
          Inr (render_pixels four_pixels
                 [(1, 2, 3), (4, 5, 6), (7, 8, 9), (10, 11, 12)]
                 (Some [(-1, 1, 0), (0, 1, 0), (-1, 0, 0), (0, 0, 0)]) g))"

section \<open>The page component \<^verbatim>\<open>PixelArt\<close>\<close>

definition DEFAULT_PIXEL_SIZE :: rat where
  "DEFAULT_PIXEL_SIZE = 64"

text \<open>
  The state variables of the page, followed by what the browser holds for it: the clock
  (milliseconds) and the pending \<^verbatim>\<open>setTimeout\<close> callbacks with the time each is due.
  Every callback the page registers calls \<^verbatim>\<open>setAnimation\<close> with a constant, so a
  callback is kept as that constant. State variables that share their name with a prop of
  \<open>PixelGrid\<close> carry the prefix \<open>app_\<close>. The widths and heights are what
  \<^verbatim>\<open>Number(e.target.value)\<close> gives for the two number inputs, as in the sampler.
\<close>

record PixelArt =
  app_pixels :: "PixelInfo list option"
  tempPixelWidth :: rat
  tempPixelHeight :: rat
  app_pixelWidth :: rat
  app_pixelHeight :: rat
  app_fileChangeCount :: nat
  imageSrc :: "string option"
  app_animation :: string
  now :: rat
  timers :: "(rat \<times> string) list"

text \<open>The page as it is first rendered, with the clock at 0 and no timer pending.\<close>

definition initial_page :: PixelArt where
  "initial_page =
     \<lparr>app_pixels = None,
      tempPixelWidth = DEFAULT_PIXEL_SIZE,
      tempPixelHeight = DEFAULT_PIXEL_SIZE,
      app_pixelWidth = DEFAULT_PIXEL_SIZE,
      app_pixelHeight = DEFAULT_PIXEL_SIZE,
      app_fileChangeCount = 0,
      imageSrc = None,
      app_animation = ''default'',
      now = 0,
      timers = []\<rparr>"

text \<open>\<^verbatim>\<open>FileReader.result\<close> is a string, an \<^verbatim>\<open>ArrayBuffer\<close> or \<^verbatim>\<open>null\<close>.\<close>

datatype reader_result = ResultString string | ResultArrayBuffer "byte list" | ResultNull

text \<open>
  The reader that \<^verbatim>\<open>handleFileChange\<close> starts: the file handed to \<^verbatim>\<open>readAsDataURL\<close>,
  and the values of \<^verbatim>\<open>tempPixelWidth\<close> and \<^verbatim>\<open>tempPixelHeight\<close> that its \<^verbatim>\<open>onload\<close>
  callback closes over, those of the render in which the file was chosen.
\<close>

record 'file FileReader =
  reader_file :: 'file
  closed_tempPixelWidth :: rat
  closed_tempPixelHeight :: rat

text \<open>
  \<^verbatim>\<open>handleFileChange\<close>: \<open>files\<close> is \<^verbatim>\<open>e.target.files\<close>. The result is the state of
  the page after the handler and the reader it has started, if any.
\<close>

definition handleFileChange ::
  "'file list option \<Rightarrow> PixelArt \<Rightarrow> PixelArt \<times> 'file FileReader option"
where
  "handleFileChange files s =
     (let file = (case files of None \<Rightarrow> None
                  | Some fs \<Rightarrow> (case fs of [] \<Rightarrow> None | f # _ \<Rightarrow> Some f))
      in case file of
           None \<Rightarrow> (s, None)
         | Some f \<Rightarrow>
             (s, Some \<lparr>reader_file = f,
                       closed_tempPixelWidth = tempPixelWidth s,
                       closed_tempPixelHeight = tempPixelHeight s\<rparr>))"

text \<open>
  The \<^verbatim>\<open>onload\<close> callback of the reader. \<open>url\<close> is \<^verbatim>\<open>ev.target?.result\<close>:
  \<open>None\<close> (\<^verbatim>\<open>undefined\<close>) when \<^verbatim>\<open>ev.target\<close> is \<^verbatim>\<open>null\<close>, the reader's result
  otherwise. The callback returns at once unless \<^verbatim>\<open>typeof url\<close> is \<^verbatim>\<open>"string"\<close>.
\<close>

definition reader_onload ::
  "'file FileReader \<Rightarrow> reader_result option \<Rightarrow> PixelArt \<Rightarrow> PixelArt"
where
  "reader_onload reader url s =
     (case url of
        Some (ResultString u) \<Rightarrow>
          s\<lparr>app_pixelWidth := closed_tempPixelWidth reader,
            app_pixelHeight := closed_tempPixelHeight reader,
            imageSrc := Some u\<rparr>
      | _ \<Rightarrow> s)"

definition setAnimation :: "string \<Rightarrow> PixelArt \<Rightarrow> PixelArt" where
  "setAnimation v s = s\<lparr>app_animation := v\<rparr>"

text \<open>\<^verbatim>\<open>setTimeout(() => setAnimation(v), delay)\<close>.\<close>

definition setTimeout :: "string \<Rightarrow> rat \<Rightarrow> PixelArt \<Rightarrow> PixelArt" where
  "setTimeout v delay s = s\<lparr>timers := timers s @ [(now s + delay, v)]\<rparr>"

definition controlExplosionAnimation :: "PixelArt \<Rightarrow> PixelArt" where
  "controlExplosionAnimation s =
     setTimeout ''default'' (ANIMATION_TIME * 2000)
       (setTimeout ''explosion_end'' (ANIMATION_TIME * 1000)
          (setAnimation ''explosion_start'' s))"

definition controlWaveAnimation :: "PixelArt \<Rightarrow> PixelArt" where
  "controlWaveAnimation s =
     setTimeout ''default'' (ANIMATION_TIME * 2000)
       (setTimeout ''wave_end'' (ANIMATION_TIME * 1000)
          (setAnimation ''wave_start'' s))"

text \<open>
  The browser's timer queue: the callbacks due by time \<open>t\<close>, in the order they run
  (by due time, and by registration among equal due times), and the page once the clock
  has reached \<open>t\<close> with nothing else happening in between.
\<close>

definition due_callbacks :: "rat \<Rightarrow> PixelArt \<Rightarrow> string list" where
  "due_callbacks t s = map snd (sort_key fst (filter (\<lambda>(due, v). due \<le> t) (timers s)))"

definition run_until :: "rat \<Rightarrow> PixelArt \<Rightarrow> PixelArt" where
  "run_until t s =
     (fold setAnimation (due_callbacks t s) s)
       \<lparr>timers := filter (\<lambda>(due, v). \<not> due \<le> t) (timers s), now := t\<rparr>"

section \<open>Properties of the sampler\<close>

text \<open>
  A loop over a counter that starts at 0 runs while the counter is below \<open>passes\<close> of its
  bound, and the two loops compute \<open>sampled\<close>: one row per pass of the outer loop.
\<close>

lemma loop_test: "of_nat x < n \<longleftrightarrow> x < passes n"
  by (simp add: passes_def zless_nat_eq_int_zless less_ceiling_iff)

lemma passes_of_nat [simp]: "passes (of_nat n) = n"
  by (simp add: passes_def)

lemma inner_loop_eq:
  "x \<le> passes targetWidth \<Longrightarrow>
   inner_loop data targetWidth targetHeight y x (base + 4 * x) result =
     (base + 4 * passes targetWidth,
      result @ row_cells data targetWidth targetHeight y base [x..<passes targetWidth])"
proof (induction "passes targetWidth - x" arbitrary: x result)
  case 0
  then have "x = passes targetWidth" by simp
  then show ?case by (simp add: row_cells_def inner_loop.simps loop_test)
next
  case (Suc n)
  then have less: "x < passes targetWidth" and rest: "n = passes targetWidth - (x + 1)"
    and le: "x + 1 \<le> passes targetWidth"
    by simp_all
  from less have test: "of_nat x < targetWidth" by (simp add: loop_test)
  have step: "base + 4 * x + 4 = base + 4 * (x + 1)" by simp
  have upt: "[x..<passes targetWidth] = x # [x + 1..<passes targetWidth]"
    using less by (simp add: upt_conv_Cons)
  note IH = Suc.hyps(1)[OF rest le]
  show ?case
    by (subst inner_loop.simps)
       (simp only: test if_True Let_def step IH upt row_cells_def sample_cell_def
          filter.simps list.map append_assoc append_Cons append_Nil split: if_split, simp)
qed

lemma outer_loop_eq:
  "y \<le> passes targetHeight \<Longrightarrow>
   outer_loop data targetWidth targetHeight y (4 * (y * passes targetWidth)) result =
     result @ concat (map (\<lambda>y'. row_cells data targetWidth targetHeight y'
                                  (4 * (y' * passes targetWidth)) [0..<passes targetWidth])
                        [y..<passes targetHeight])"
proof (induction "passes targetHeight - y" arbitrary: y result)
  case 0
  then have "y = passes targetHeight" by simp
  then show ?case by (simp add: outer_loop.simps loop_test)
next
  case (Suc n)
  then have less: "y < passes targetHeight" and rest: "n = passes targetHeight - (y + 1)"
    and le: "y + 1 \<le> passes targetHeight"
    by simp_all
  from less have test: "of_nat y < targetHeight" by (simp add: loop_test)
  have upt: "[y..<passes targetHeight] = y # [y + 1..<passes targetHeight]"
    using less by (simp add: upt_conv_Cons)
  have row: "inner_loop data targetWidth targetHeight y 0 (4 * (y * passes targetWidth)) result =
       (4 * ((y + 1) * passes targetWidth),
        result @ row_cells data targetWidth targetHeight y (4 * (y * passes targetWidth))
                   [0..<passes targetWidth])"
    using inner_loop_eq [of 0 targetWidth data targetHeight y "4 * (y * passes targetWidth)" result]
    by (simp add: algebra_simps)
  show ?case
    by (subst outer_loop.simps)
       (simp only: test if_True row prod.case Suc.hyps(1)[OF rest le] upt list.map concat.simps
          append_assoc)
qed

lemma createPixelData_Some:
  "c img w h = Inr data \<Longrightarrow> createPixelData (Some c) img w h = Inr (sampled data w h)"
  using outer_loop_eq [of 0 h data w "[]"]
  by (simp add: createPixelData_def sampled_def)

lemma passes_numeral [simp]: "passes (numeral n) = numeral n"
  by (simp add: passes_def)




lemma cell_in_range:
  assumes "x < w" "y < h"
  shows "cell_idx w x y + 3 < 4 * w * h"
proof -
  have "y * w + x < (y + 1) * w" using assms by simp
  also have "\<dots> \<le> h * w" using assms by (intro mult_le_mono1) simp
  finally show ?thesis by (simp add: cell_idx_def algebra_simps)
qed








text \<open>
  C3. For the 2 by 2 image of an opaque red, an opaque green, an opaque blue and a
  transparent black cell, \<open>createPixelData\<close> returns exactly three records: the
  transparent cell is dropped, and the red, green and blue cells each give a record with
  their colour scaled to \<open>[0, 1]\<close>: \<open>(1, 0, 0)\<close>, \<open>(0, 1, 0)\<close> and \<open>(0, 0, 1)\<close>.
\<close>

theorem createPixelData_example:
  "createPixelData (Some (\<lambda>img w h. Inr example_image)) img 2 2 =
     Inr [\<lparr>pixel_x = -1, pixel_y = 1, pixel_z = 0, color = Color (Num 1) (Num 0) (Num 0)\<rparr>,
          \<lparr>pixel_x = 0, pixel_y = 1, pixel_z = 0, color = Color (Num 0) (Num 1) (Num 0)\<rparr>,
          \<lparr>pixel_x = -1, pixel_y = 0, pixel_z = 0, color = Color (Num 0) (Num 0) (Num 1)\<rparr>]"
  by (simp add: createPixelData_def outer_loop.simps inner_loop.simps example_image_def
        data_at_def alpha_lt_def channel_def)

text \<open>The sampler reads the image data only at the bytes of the cells its loops visit.\<close>

lemma data_at_take: "i < n \<Longrightarrow> data_at (take n data) i = data_at data i"
  by (simp add: data_at_def)

lemma row_cells_take:
  assumes "y < passes h"
  shows "row_cells (take (4 * passes w * passes h) data) w h y (4 * (y * passes w)) [0..<passes w] =
         row_cells data w h y (4 * (y * passes w)) [0..<passes w]"
proof -
  let ?n = "4 * passes w * passes h"
  have idx: "4 * (y * passes w) + 4 * x + k < ?n" if "x < passes w" "k \<le> 3" for x k
    using cell_in_range [OF that(1) assms] that(2) by (simp add: cell_idx_def algebra_simps)
  have a: "data_at (take ?n data) (4 * (y * passes w) + 4 * x + 3) =
           data_at data (4 * (y * passes w) + 4 * x + 3)" if "x < passes w" for x
    using idx [OF that, of 3] by (simp add: data_at_take)
  have c: "sample_cell (take ?n data) w h y x (4 * (y * passes w) + 4 * x) =
           sample_cell data w h y x (4 * (y * passes w) + 4 * x)" if "x < passes w" for x
    using idx [OF that, of 0] idx [OF that, of 1] idx [OF that, of 2]
    by (simp add: sample_cell_def data_at_take)
  have f: "filter (\<lambda>x. \<not> alpha_lt (data_at (take ?n data) (4 * (y * passes w) + 4 * x + 3)) 30)
             [0..<passes w] =
           filter (\<lambda>x. \<not> alpha_lt (data_at data (4 * (y * passes w) + 4 * x + 3)) 30)
             [0..<passes w]"
    by (rule filter_cong) (simp_all add: a)
  show ?thesis
    unfolding row_cells_def f by (rule map_cong) (simp_all add: c)
qed

lemma sampled_take: "sampled (take (4 * passes w * passes h) data) w h = sampled data w h"
  unfolding sampled_def
  by (rule arg_cong [where f = concat], rule map_cong) (simp_all add: row_cells_take)

lemma createPixelData_sampled:
  "createPixelData ctx img w h =
     (case ctx of None \<Rightarrow> Inl (Error ''No 2D context available'')
      | Some c \<Rightarrow> (case c img w h of Inl name \<Rightarrow> Inl (DOMException name)
                   | Inr data \<Rightarrow> Inr (sampled data w h)))"
  by (auto simp: createPixelData_Some split: option.splits sum.splits)
     (simp_all add: createPixelData_def)

text \<open>
  C4. Two invocations of \<open>createPixelData\<close> with the same grid size, each on a canvas of
  its own, give the same result when the two canvases agree on the RGBA bytes of the
  cells (or throw the same exception, or when neither invocation has a 2D context): the
  result depends on nothing else.
\<close>

theorem createPixelData_idempotent:
  assumes "map_option (\<lambda>c. map_sum id (take (4 * passes w * passes h)) (c img1 w h)) ctx1 =
           map_option (\<lambda>c. map_sum id (take (4 * passes w * passes h)) (c img2 w h)) ctx2"
  shows "createPixelData ctx1 img1 w h = createPixelData ctx2 img2 w h"
proof (cases ctx1)
  case None
  with assms have "ctx2 = None" by simp
  with None show ?thesis by (simp add: createPixelData_def)
next
  case (Some c1)
  with assms obtain c2 where c2: "ctx2 = Some c2"
    and eq: "map_sum id (take (4 * passes w * passes h)) (c1 img1 w h) =
             map_sum id (take (4 * passes w * passes h)) (c2 img2 w h)"
    by (cases ctx2) simp_all
  show ?thesis
  proof (cases "c1 img1 w h")
    case (Inl name)
    with eq have "c2 img2 w h = Inl name" by (cases "c2 img2 w h") simp_all
    with Inl Some c2 show ?thesis by (simp add: createPixelData_sampled)
  next
    case (Inr d1)
    with eq obtain d2 where d2: "c2 img2 w h = Inr d2"
      and t: "take (4 * passes w * passes h) d1 = take (4 * passes w * passes h) d2"
      by (cases "c2 img2 w h") simp_all
    have "sampled d1 w h = sampled d2 w h"
      using sampled_take [of w h d1] sampled_take [of w h d2] t by simp
    with Inr d2 Some c2 show ?thesis by (simp add: createPixelData_sampled)
  qed
qed

theorem createPixelData_idempotent_witness:
  "createPixelData (Some (\<lambda>img w h. Inr example_image)) (0::nat) 2 2 =
   createPixelData (Some (\<lambda>img w h. Inr (example_image @ [7]))) (1::nat) 2 2"
  using createPixelData_idempotent
    [of 2 2 "0::nat" "Some (\<lambda>img w h. Inr example_image)" "1::nat"
       "Some (\<lambda>img w h. Inr (example_image @ [7]))"]
  by (simp add: example_image_def)

text \<open>
  C2 fails on the code. For a fully opaque row of two cells the sampler emits the x
  positions \<open>-1\<close> and \<open>0\<close>: their mirror images are \<open>1\<close> and \<open>0\<close>, and they sum to
  \<open>-1\<close>, so the row is centred on \<open>-1/2\<close> and not on the origin.
\<close>

theorem createPixelData_row_not_centred:
  "createPixelData (Some (\<lambda>img w h. Inr opaque_row)) img 2 1 =
     Inr [\<lparr>pixel_x = -1, pixel_y = 1 / 2, pixel_z = 0, color = Color (Num 1) (Num 0) (Num 0)\<rparr>,
          \<lparr>pixel_x = 0, pixel_y = 1 / 2, pixel_z = 0, color = Color (Num 0) (Num 1) (Num 0)\<rparr>]
   \<and> map pixel_x (sampled opaque_row 2 1) = [-1, 0]
   \<and> map (\<lambda>p. - pixel_x p) (sampled opaque_row 2 1) = [1, 0]
   \<and> sum_list (map pixel_x (sampled opaque_row 2 1)) = -1"
proof -
  have run: "createPixelData (Some (\<lambda>img w h. Inr opaque_row)) img 2 1 =
     Inr [\<lparr>pixel_x = -1, pixel_y = 1 / 2, pixel_z = 0, color = Color (Num 1) (Num 0) (Num 0)\<rparr>,
          \<lparr>pixel_x = 0, pixel_y = 1 / 2, pixel_z = 0, color = Color (Num 0) (Num 1) (Num 0)\<rparr>]"
    by (simp add: createPixelData_def outer_loop.simps inner_loop.simps opaque_row_def
          data_at_def alpha_lt_def channel_def)
  then have "sampled opaque_row 2 1 =
     [\<lparr>pixel_x = -1, pixel_y = 1 / 2, pixel_z = 0, color = Color (Num 1) (Num 0) (Num 0)\<rparr>,
      \<lparr>pixel_x = 0, pixel_y = 1 / 2, pixel_z = 0, color = Color (Num 0) (Num 1) (Num 0)\<rparr>]"
    by (simp add: createPixelData_sampled)
  with run show ?thesis by simp
qed

section \<open>Properties of the page\<close>

text \<open>
  C8 (amended). \<open>createPixelData\<close> ends in its own error, \<^verbatim>\<open>"No 2D context available"\<close>,
  exactly when no 2D context is obtained. With a context it ends in an error exactly when
  the drawing or the readback of the platform throws, and the error is then that
  exception. \<open>handleFileChange\<close> without a selected file leaves the page as it is and
  starts no reader; the \<open>onload\<close> callback leaves the page as it is when the reader's
  result is not a string.
\<close>

theorem sampling_and_file_errors:
  "(createPixelData ctx img w h = Inl (Error ''No 2D context available'') \<longleftrightarrow> ctx = None) \<and>
   (\<forall>e. createPixelData ctx img w h = Inl e \<longleftrightarrow>
      (ctx = None \<and> e = Error ''No 2D context available'') \<or>
      (\<exists>c name. ctx = Some c \<and> c img w h = Inl name \<and> e = DOMException name)) \<and>
   handleFileChange (None :: 'file list option) s = (s, None) \<and>
   handleFileChange (Some [] :: 'file list option) s = (s, None) \<and>
   (\<forall>(reader :: 'file FileReader) url.
      (\<forall>u. url \<noteq> Some (ResultString u)) \<longrightarrow> reader_onload reader url s = s)"
proof -
  have own: "createPixelData ctx img w h = Inl (Error ''No 2D context available'') \<longleftrightarrow> ctx = None"
    by (auto simp: createPixelData_def split: option.splits sum.splits)
  have any: "createPixelData ctx img w h = Inl e \<longleftrightarrow>
      (ctx = None \<and> e = Error ''No 2D context available'') \<or>
      (\<exists>c name. ctx = Some c \<and> c img w h = Inl name \<and> e = DOMException name)" for e
    by (auto simp: createPixelData_def split: option.splits sum.splits)
  have quiet: "reader_onload reader url s = s"
    if "\<forall>u. url \<noteq> Some (ResultString u)" for reader :: "'file FileReader" and url
    using that by (auto simp: reader_onload_def split: option.splits reader_result.splits)
  have none: "handleFileChange (None :: 'file list option) s = (s, None)"
    "handleFileChange (Some [] :: 'file list option) s = (s, None)"
    by (simp_all add: handleFileChange_def)
  from own any quiet none show ?thesis by simp
qed

theorem sampling_and_file_errors_witness:
  "createPixelData None () 2 2 = Inl (Error ''No 2D context available'') \<and>
   createPixelData (Some (canvas_context example_raster)) () 0 2 =
     Inl (DOMException ''IndexSizeError'') \<and>
   createPixelData (Some (canvas_context example_raster)) () 2 2 \<noteq>
     Inl (Error ''No 2D context available'') \<and>
   handleFileChange (None :: unit list option) initial_page = (initial_page, None) \<and>
   reader_onload \<lparr>reader_file = (), closed_tempPixelWidth = 5, closed_tempPixelHeight = 7\<rparr>
     (Some ResultNull) initial_page = initial_page \<and>
   reader_onload \<lparr>reader_file = (), closed_tempPixelWidth = 5, closed_tempPixelHeight = 7\<rparr>
     (Some (ResultArrayBuffer [1, 2])) initial_page = initial_page \<and>
   reader_onload \<lparr>reader_file = (), closed_tempPixelWidth = 5, closed_tempPixelHeight = 7\<rparr>
     None initial_page = initial_page"
proof -
  let ?c = "canvas_context example_raster"
  let ?r = "\<lparr>reader_file = (), closed_tempPixelWidth = 5, closed_tempPixelHeight = 7\<rparr>"
  have zero: "?c () 0 2 = Inl ''IndexSizeError''"
    by (simp add: canvas_context_def)
  note n = sampling_and_file_errors [of None "()" 2 2 initial_page, where ?'file = unit]
  note z = sampling_and_file_errors [of "Some ?c" "()" 0 2 initial_page, where ?'file = unit]
  note t = sampling_and_file_errors [of "Some ?c" "()" 2 2 initial_page, where ?'file = unit]
  from n have "createPixelData None () 2 2 = Inl (Error ''No 2D context available'')" by simp
  moreover from z [THEN conjunct2, THEN conjunct1, THEN spec, of "DOMException ''IndexSizeError''"] zero
  have "createPixelData (Some ?c) () 0 2 = Inl (DOMException ''IndexSizeError'')" by simp
  moreover from t have "createPixelData (Some ?c) () 2 2 \<noteq> Inl (Error ''No 2D context available'')"
    by simp
  moreover from n have "handleFileChange (None :: unit list option) initial_page = (initial_page, None)"
    by blast
  moreover from n [THEN conjunct2, THEN conjunct2, THEN conjunct2, THEN conjunct2, THEN spec, of ?r]
  have "reader_onload ?r (Some ResultNull) initial_page = initial_page"
    "reader_onload ?r (Some (ResultArrayBuffer [1, 2])) initial_page = initial_page"
    "reader_onload ?r None initial_page = initial_page"
    by simp_all
  ultimately show ?thesis by simp
qed

text \<open>
  C8 as stated fails: at width 0, which the page passes on when the width field is
  empty, a context is obtained and the sampler still ends in an error, the
  \<^verbatim>\<open>IndexSizeError\<close> of \<^verbatim>\<open>getImageData\<close>.
\<close>

theorem sampling_fails_with_context:
  "createPixelData (Some (canvas_context example_raster)) () 0 2 =
     Inl (DOMException ''IndexSizeError'') \<and>
   Some (canvas_context example_raster) \<noteq> None"
  by (simp add: createPixelData_def canvas_context_def)

text \<open>The callbacks due from two timers, the first due no later than the second.\<close>

lemma due_two:
  assumes "d1 \<le> d2"
  shows "map snd (sort_key fst (filter (\<lambda>(due, v). due \<le> t) [(d1, a), (d2, b)])) =
           (if t < d1 then [] else if t < d2 then [a] else [a, b])"
  using assms by auto

lemma trigger_timeline:
  fixes s :: PixelArt and e b :: string and t :: rat
  assumes "timers s = []"
  defines "s1 \<equiv> setTimeout ''default'' (ANIMATION_TIME * 2000)
       (setTimeout e (ANIMATION_TIME * 1000) (setAnimation b s))"
  shows "app_animation s1 = b"
    and "timers s1 = [(now s + 3000, e), (now s + 6000, ''default'')]"
    and "t < now s + 3000 \<Longrightarrow> due_callbacks t s1 = [] \<and> app_animation (run_until t s1) = b"
    and "now s + 3000 \<le> t \<Longrightarrow> t < now s + 6000 \<Longrightarrow>
           due_callbacks t s1 = [e] \<and> app_animation (run_until t s1) = e"
    and "now s + 6000 \<le> t \<Longrightarrow>
           due_callbacks t s1 = [e, ''default''] \<and> app_animation (run_until t s1) = ''default'' \<and>
           timers (run_until t s1) = []"
proof -
  show tm: "timers s1 = [(now s + 3000, e), (now s + 6000, ''default'')]"
    using assms(1) by (simp add: s1_def setTimeout_def setAnimation_def ANIMATION_TIME_def)
  have due: "due_callbacks t s1 = (if t < now s + 3000 then [] else if t < now s + 6000 then [e] else [e, ''default''])" for t
    unfolding due_callbacks_def tm by (rule due_two) simp
  show "app_animation s1 = b"
    by (simp add: s1_def setTimeout_def setAnimation_def)
  then show "t < now s + 3000 \<Longrightarrow> due_callbacks t s1 = [] \<and> app_animation (run_until t s1) = b"
    by (simp add: run_until_def due)
  show "now s + 3000 \<le> t \<Longrightarrow> t < now s + 6000 \<Longrightarrow>
           due_callbacks t s1 = [e] \<and> app_animation (run_until t s1) = e"
    by (simp add: run_until_def due setAnimation_def)
  show "now s + 6000 \<le> t \<Longrightarrow>
           due_callbacks t s1 = [e, ''default''] \<and> app_animation (run_until t s1) = ''default'' \<and>
           timers (run_until t s1) = []"
    by (simp add: run_until_def due setAnimation_def tm)
qed

text \<open>
  C7. With no timer pending, triggering an effect sets the mode to its start value and
  registers two timers: the first, due exactly \<open>ANIMATION_TIME * 1000\<close> milliseconds later,
  sets the mode to the matching end value, the second, due exactly twice as late, sets it
  back to \<^verbatim>\<open>"default"\<close>. With no other trigger in between, the mode is the start value
  until the first timer is due, the end value until the second is due, and
  \<^verbatim>\<open>"default"\<close> from then on; \<^verbatim>\<open>"default"\<close> has then been set exactly once, and no
  timer is left.
\<close>

theorem displacement_mode_returns_to_idle:
  assumes "timers s = []"
    and "(trigger, start, finish) = (controlExplosionAnimation, ''explosion_start'', ''explosion_end'') \<or>
         (trigger, start, finish) = (controlWaveAnimation, ''wave_start'', ''wave_end'')"
  shows "app_animation (trigger s) = start \<and>
         timers (trigger s) =
           [(now s + ANIMATION_TIME * 1000, finish), (now s + 2 * (ANIMATION_TIME * 1000), ''default'')] \<and>
         (\<forall>t. t < now s + ANIMATION_TIME * 1000 \<longrightarrow>
            app_animation (run_until t (trigger s)) = start \<and>
            due_callbacks t (trigger s) = []) \<and>
         (\<forall>t. now s + ANIMATION_TIME * 1000 \<le> t \<and> t < now s + 2 * (ANIMATION_TIME * 1000) \<longrightarrow>
            app_animation (run_until t (trigger s)) = finish \<and>
            due_callbacks t (trigger s) = [finish]) \<and>
         (\<forall>t. now s + 2 * (ANIMATION_TIME * 1000) \<le> t \<longrightarrow>
            app_animation (run_until t (trigger s)) = ''default'' \<and>
            due_callbacks t (trigger s) = [finish, ''default''] \<and>
            count_list (due_callbacks t (trigger s)) ''default'' = 1 \<and>
            timers (run_until t (trigger s)) = [])"
proof -
  from assms(2) have tr: "trigger s =
      setTimeout ''default'' (ANIMATION_TIME * 2000)
        (setTimeout finish (ANIMATION_TIME * 1000) (setAnimation start s))"
    and fin: "finish \<noteq> ''default''"
    by (auto simp: controlExplosionAnimation_def controlWaveAnimation_def)
  note tl = trigger_timeline [OF assms(1), where e = finish and b = start, folded tr]
  have "count_list [finish, ''default''] ''default'' = 1" using fin by simp
  with tl show ?thesis by (simp add: ANIMATION_TIME_def)
qed

theorem displacement_mode_returns_to_idle_witness:
  "timers initial_page = [] \<and>
   app_animation (controlExplosionAnimation initial_page) = ''explosion_start'' \<and>
   app_animation (run_until 2999 (controlExplosionAnimation initial_page)) = ''explosion_start'' \<and>
   app_animation (run_until 3000 (controlExplosionAnimation initial_page)) = ''explosion_end'' \<and>
   app_animation (run_until 6000 (controlExplosionAnimation initial_page)) = ''default'' \<and>
   count_list (due_callbacks 100000 (controlExplosionAnimation initial_page)) ''default'' = 1 \<and>
   app_animation (run_until 4000 (controlWaveAnimation initial_page)) = ''wave_end'' \<and>
   app_animation (run_until 6000 (controlWaveAnimation initial_page)) = ''default''"
proof -
  have t: "timers initial_page = []" and n: "now initial_page = 0"
    by (simp_all add: initial_page_def)
  note e = displacement_mode_returns_to_idle
    [OF t, of controlExplosionAnimation "''explosion_start''" "''explosion_end''", simplified]
  note w = displacement_mode_returns_to_idle
    [OF t, of controlWaveAnimation "''wave_start''" "''wave_end''", simplified]
  from e have "app_animation (controlExplosionAnimation initial_page) = ''explosion_start''" by simp
  moreover from e [THEN conjunct2, THEN conjunct2, THEN conjunct1, THEN spec, of 2999]
  have "app_animation (run_until 2999 (controlExplosionAnimation initial_page)) = ''explosion_start''"
    by (simp add: n ANIMATION_TIME_def)
  moreover from e [THEN conjunct2, THEN conjunct2, THEN conjunct2, THEN conjunct1, THEN spec, of 3000]
  have "app_animation (run_until 3000 (controlExplosionAnimation initial_page)) = ''explosion_end''"
    by (simp add: n ANIMATION_TIME_def)
  moreover from e [THEN conjunct2, THEN conjunct2, THEN conjunct2, THEN conjunct2, THEN spec, of 6000]
    e [THEN conjunct2, THEN conjunct2, THEN conjunct2, THEN conjunct2, THEN spec, of 100000]
  have "app_animation (run_until 6000 (controlExplosionAnimation initial_page)) = ''default''"
    "count_list (due_callbacks 100000 (controlExplosionAnimation initial_page)) ''default'' = 1"
    by (simp_all add: n ANIMATION_TIME_def)
  moreover from w [THEN conjunct2, THEN conjunct2, THEN conjunct2, THEN conjunct1, THEN spec, of 4000]
    w [THEN conjunct2, THEN conjunct2, THEN conjunct2, THEN conjunct2, THEN spec, of 6000]
  have "app_animation (run_until 4000 (controlWaveAnimation initial_page)) = ''wave_end''"
    "app_animation (run_until 6000 (controlWaveAnimation initial_page)) = ''default''"
    by (simp_all add: n ANIMATION_TIME_def)
  ultimately show ?thesis using t by simp
qed

section \<open>Properties of the reveal\<close>

lemma js_nth_store: "js_nth (js_store xs i v) j = (if j = i then Some v else js_nth xs j)"
  by (auto simp: js_nth_def js_store_def nth_append)

lemma fill_loop_step: "i < e \<Longrightarrow> fill_loop xs i e = fill_loop (js_store xs i 1) (Suc i) e"
  by (subst fill_loop.simps) simp

lemma fill_loop_done: "e \<le> i \<Longrightarrow> fill_loop xs i e = xs"
  by (subst fill_loop.simps) simp

lemma js_nth_fill_loop:
  "js_nth (fill_loop xs i e) j = (if i \<le> j \<and> j < e then Some 1 else js_nth xs j)"
proof (induction "e - i" arbitrary: i xs)
  case 0
  then have "e \<le> i" by simp
  then show ?case by (auto simp: fill_loop_done)
next
  case (Suc n)
  then have less: "i < e" and rest: "n = e - Suc i" by simp_all
  show ?case
    unfolding fill_loop_step [OF less] Suc.hyps(1) [OF rest]
    using less by (auto simp: js_nth_store)
qed

lemma length_js_store: "i < length xs \<Longrightarrow> length (js_store xs i v) = length xs"
  by (simp add: js_store_def)

lemma length_fill_loop: "e \<le> length xs \<Longrightarrow> length (fill_loop xs i e) = length xs"
proof (induction "e - i" arbitrary: i xs)
  case 0
  then have "e \<le> i" by simp
  then show ?case by (simp add: fill_loop_done)
next
  case (Suc n)
  then have less: "i < e" and rest: "n = e - Suc i" by simp_all
  with Suc.prems have "i < length xs" by simp
  then have len: "length (js_store xs i 1) = length xs" by (rule length_js_store)
  with Suc.prems have "e \<le> length (js_store xs i 1)" by simp
  from Suc.hyps(1) [OF rest this] len show ?case
    unfolding fill_loop_step [OF less] by simp
qed

lemma batch_count_progress [simp]:
  "batch_count (g\<lparr>scaleProgressRef := p\<rparr>) = batch_count g"
  by (simp add: batch_count_def)

lemma reveal_threshold_progress [simp]:
  "reveal_threshold (g\<lparr>scaleProgressRef := p\<rparr>) = reveal_threshold g"
  by (simp add: reveal_threshold_def)


lemma reveal_terminal:
  "js_gt (Num (of_nat (batchIndexRef g))) (batch_count g) \<Longrightarrow> useFrame_reveal delta g = g"
  by (simp add: useFrame_reveal_def)

lemma reveal_progress:
  "\<not> js_gt (Num (of_nat (batchIndexRef g))) (batch_count g) \<Longrightarrow>
   scaleProgressRef (useFrame_reveal delta g) = scaleProgressRef g + delta \<and>
   pixels (useFrame_reveal delta g) = pixels g \<and> pixelWidth (useFrame_reveal delta g) = pixelWidth g"
  by (simp add: useFrame_reveal_def Let_def)

lemma reveal_flip:
  assumes "\<not> js_gt (Num (of_nat (batchIndexRef g))) (batch_count g)"
    and "js_gt (Num (scaleProgressRef g + delta)) (reveal_threshold g)"
  shows "batchIndexRef (useFrame_reveal delta g) = batchIndexRef g + 1"
    and "scales (useFrame_reveal delta g) =
           fill_loop (scales g) (batchIndexRef g * pixelWidth g)
             (min (batchIndexRef g * pixelWidth g + pixelWidth g) (length (pixels g)))"
  using assms by (simp_all add: useFrame_reveal_def Let_def)

lemma reveal_wait:
  assumes "\<not> js_gt (Num (of_nat (batchIndexRef g))) (batch_count g)"
    and "\<not> js_gt (Num (scaleProgressRef g + delta)) (reveal_threshold g)"
  shows "batchIndexRef (useFrame_reveal delta g) = batchIndexRef g"
    and "scales (useFrame_reveal delta g) = scales g"
  using assms by (simp_all add: useFrame_reveal_def Let_def)



lemma reveal_inv_fill:
  assumes "reveal_inv g"
  shows "fill_loop (scales g) (batchIndexRef g * pixelWidth g)
             (min (batchIndexRef g * pixelWidth g + pixelWidth g) (length (pixels g))) =
         map (\<lambda>i. if i < (batchIndexRef g + 1) * pixelWidth g then Some 1 else Some 0)
          [0..<length (pixels g)]"
    (is "fill_loop _ ?s ?e = ?rhs")
proof (rule nth_equalityI)
  have len: "length (scales g) = length (pixels g)"
    using assms by (simp add: reveal_inv_def)
  then have e: "?e \<le> length (scales g)" by simp
  show l: "length (fill_loop (scales g) ?s ?e) = length ?rhs"
    using length_fill_loop [OF e] len by simp
  fix j assume "j < length (fill_loop (scales g) ?s ?e)"
  with l have j: "j < length (pixels g)" by simp
  have "fill_loop (scales g) ?s ?e ! j = js_nth (fill_loop (scales g) ?s ?e) j"
    using j length_fill_loop [OF e] len by (simp add: js_nth_def)
  also have "\<dots> = (if ?s \<le> j \<and> j < ?e then Some 1 else js_nth (scales g) j)"
    by (rule js_nth_fill_loop)
  also have "\<dots> = ?rhs ! j"
    using assms j by (auto simp: reveal_inv_def js_nth_def)
  finally show "fill_loop (scales g) ?s ?e ! j = ?rhs ! j" .
qed

lemma reveal_inv_frame: "reveal_inv g \<Longrightarrow> reveal_inv (useFrame_reveal delta g)"
proof -
  assume inv: "reveal_inv g"
  show ?thesis
  proof (cases "js_gt (Num (of_nat (batchIndexRef g))) (batch_count g)")
    case True
    with inv show ?thesis by (simp add: reveal_terminal)
  next
    case False
    show ?thesis
    proof (cases "js_gt (Num (scaleProgressRef g + delta)) (reveal_threshold g)")
      case True
      show ?thesis
        unfolding reveal_inv_def
        using reveal_flip [OF False True] reveal_progress [OF False, of delta] reveal_inv_fill [OF inv]
        by simp
    next
      case wait: False
      show ?thesis
        unfolding reveal_inv_def
        using reveal_wait [OF False wait] reveal_progress [OF False, of delta] inv
        by (simp add: reveal_inv_def)
    qed
  qed
qed

section \<open>Properties of the displacement\<close>

lemma ungrouped_set_position [simp]: "ungrouped (set_position i v g) = ungrouped g"
  by (simp add: ungrouped_def set_position_def split: option.splits)

lemma move_pixel_ungrouped:
  "move_pixel M sp pixel i g = Inr g' \<Longrightarrow> ungrouped g' = ungrouped g"
  by (auto simp: move_pixel_def split: if_splits prod.splits)

lemma forEach_ungrouped:
  "forEach_pixels M sp ps i g = Inr g' \<Longrightarrow> ungrouped g' = ungrouped g"
proof (induction ps arbitrary: i g)
  case Nil
  then show ?case by simp
next
  case (Cons pixel rest)
  then obtain g1 where g1: "move_pixel M sp pixel i g = Inr g1"
    and rest: "forEach_pixels M sp rest (i + 1) g1 = Inr g'"
    by (auto split: sum.splits)
  from Cons.IH [OF rest] move_pixel_ungrouped [OF g1] show ?case by simp
qed

lemma reveal_part_ungrouped: "ungrouped g' = ungrouped g \<Longrightarrow> reveal_part g' = reveal_part g"
proof -
  assume "ungrouped g' = ungrouped g"
  then have "reveal_part (ungrouped g') = reveal_part (ungrouped g)" by simp
  then show ?thesis by (simp add: reveal_part_def ungrouped_def)
qed

lemma reveal_part_restart [simp]: "reveal_part (restart_progress g) = reveal_part g"
  by (simp add: reveal_part_def restart_progress_def)

lemma reveal_part_advance [simp]: "reveal_part (advance_progress delta g) = reveal_part g"
  by (simp add: reveal_part_def advance_progress_def Let_def)

lemma useFrame_move_reveal_part:
  assumes "useFrame_move M delta g = Inr g'"
  shows "reveal_part g' = reveal_part g"
proof (cases "animation (restart_progress g) = ''default''")
  case True
  with assms have "g' = restart_progress g" by (simp add: useFrame_move_def Let_def)
  then show ?thesis by simp
next
  case False
  let ?g2 = "advance_progress delta (restart_progress g)"
  from assms False obtain sp where "forEach_pixels M sp (pixels ?g2) 0 ?g2 = Inr g'"
    by (simp add: useFrame_move_def Let_def)
  from reveal_part_ungrouped [OF forEach_ungrouped [OF this]] show ?thesis by simp
qed

lemma reveal_part_fields:
  assumes "reveal_part g' = reveal_part g"
  shows "pixels g' = pixels g" "pixelWidth g' = pixelWidth g" "scales g' = scales g"
    "batchIndexRef g' = batchIndexRef g" "scaleProgressRef g' = scaleProgressRef g"
proof -
  have "pixels (reveal_part g') = pixels (reveal_part g)"
    "pixelWidth (reveal_part g') = pixelWidth (reveal_part g)"
    "scales (reveal_part g') = scales (reveal_part g)"
    "batchIndexRef (reveal_part g') = batchIndexRef (reveal_part g)"
    "scaleProgressRef (reveal_part g') = scaleProgressRef (reveal_part g)"
    using assms by simp_all
  then show "pixels g' = pixels g" "pixelWidth g' = pixelWidth g" "scales g' = scales g"
    "batchIndexRef g' = batchIndexRef g" "scaleProgressRef g' = scaleProgressRef g"
    by (simp_all add: reveal_part_def)
qed

lemma pixels_useFrame_reveal: "pixels (useFrame_reveal delta g) = pixels g"
  by (simp add: useFrame_reveal_def Let_def)

lemma pixelWidth_useFrame_reveal: "pixelWidth (useFrame_reveal delta g) = pixelWidth g"
  by (simp add: useFrame_reveal_def Let_def)

lemma render_frame_keeps:
  assumes "render_frame M delta g = Inr g'"
  shows "pixels g' = pixels g" "pixelWidth g' = pixelWidth g" "reveal_inv g \<Longrightarrow> reveal_inv g'"
proof -
  note f = reveal_part_fields [OF useFrame_move_reveal_part [OF assms [unfolded render_frame_def]]]
  show "pixels g' = pixels g" using f(1) by (simp add: pixels_useFrame_reveal)
  show "pixelWidth g' = pixelWidth g" using f(2) by (simp add: pixelWidth_useFrame_reveal)
  assume "reveal_inv g"
  then have "reveal_inv (useFrame_reveal delta g)" by (rule reveal_inv_frame)
  then show "reveal_inv g'" using f by (simp add: reveal_inv_def)
qed

lemma render_frames_keeps:
  assumes "render_frames M deltas g = Inr g'"
  shows "pixels g' = pixels g \<and> pixelWidth g' = pixelWidth g \<and> (reveal_inv g \<longrightarrow> reveal_inv g')"
  using assms
proof (induction deltas arbitrary: g)
  case Nil
  then show ?case by simp
next
  case (Cons delta deltas)
  then obtain g1 where g1: "render_frame M delta g = Inr g1"
    and rest: "render_frames M deltas g1 = Inr g'"
    by (auto split: sum.splits)
  from Cons.IH [OF rest] render_frame_keeps [OF g1] show ?case by simp
qed

lemma move_pixel_wave:
  "is_wave g \<Longrightarrow>
   move_pixel M sp pixel i g = Inr (set_position i (wave_target M sp g pixel) g)"
  by (auto simp: is_wave_def move_pixel_def wave_target_def)

lemma set_position_eq:
  "set_position i v g = g\<lparr>groupRef := map_option (\<lambda>ch. ch[i := v]) (groupRef g)\<rparr>"
  by (simp add: set_position_def list_update_beyond split: option.splits)

lemma empty_range: "((i::nat) \<le> j \<and> j < i) = False"
  by auto

lemma place_wave_Nil: "place_wave M sp g [] i ch = ch"
  by (simp add: place_wave_def empty_range map_nth)

lemma place_wave_Cons:
  "place_wave M sp g rest (i + 1) (ch[i := wave_target M sp g pixel]) =
   place_wave M sp g (pixel # rest) i ch"
proof (rule nth_equalityI)
  show "length (place_wave M sp g rest (i + 1) (ch[i := wave_target M sp g pixel])) =
        length (place_wave M sp g (pixel # rest) i ch)"
    by (simp add: place_wave_def)
  fix j assume "j < length (place_wave M sp g rest (i + 1) (ch[i := wave_target M sp g pixel]))"
  then have j: "j < length ch" by (simp add: place_wave_def)
  show "place_wave M sp g rest (i + 1) (ch[i := wave_target M sp g pixel]) ! j =
        place_wave M sp g (pixel # rest) i ch ! j"
  proof (cases "j = i")
    case True
    with j show ?thesis by (simp add: place_wave_def)
  next
    case False
    have "(pixel # rest) ! (j - i) = rest ! (j - (i + 1))" if "i + 1 \<le> j"
      using that by (simp add: nth_Cons')
    moreover have "(i \<le> j \<and> j < i + length (pixel # rest)) = (i + 1 \<le> j \<and> j < i + 1 + length rest)"
      using False by auto
    ultimately show ?thesis using j False by (simp add: place_wave_def)
  qed
qed

lemma wave_after_set_position:
  "is_wave (g\<lparr>groupRef := c\<rparr>) = is_wave g"
  "wave_target M sp (g\<lparr>groupRef := c\<rparr>) = wave_target M sp g"
  "place_wave M sp (g\<lparr>groupRef := c\<rparr>) = place_wave M sp g"
  by (simp_all add: is_wave_def wave_target_def place_wave_def fun_eq_iff)

lemma forEach_wave:
  "is_wave g \<Longrightarrow>
   forEach_pixels M sp ps i g =
     Inr (g\<lparr>groupRef := map_option (place_wave M sp g ps i) (groupRef g)\<rparr>)"
proof (induction ps arbitrary: i g)
  case Nil
  have "map_option (place_wave M sp g [] i) (groupRef g) = groupRef g"
    by (cases "groupRef g") (simp_all add: place_wave_Nil)
  then show ?case by simp
next
  case (Cons pixel rest)
  let ?t = "wave_target M sp g pixel"
  let ?g1 = "g\<lparr>groupRef := map_option (\<lambda>ch. ch[i := ?t]) (groupRef g)\<rparr>"
  have w1: "is_wave ?g1" using Cons.prems by (simp add: wave_after_set_position)
  have "forEach_pixels M sp (pixel # rest) i g = forEach_pixels M sp rest (i + 1) ?g1"
    by (simp add: move_pixel_wave [OF Cons.prems] set_position_eq)
  also have "\<dots> = Inr (?g1\<lparr>groupRef := map_option (place_wave M sp ?g1 rest (i + 1)) (groupRef ?g1)\<rparr>)"
    by (rule Cons.IH [OF w1])
  also have "map_option (place_wave M sp ?g1 rest (i + 1)) (groupRef ?g1) =
             map_option (place_wave M sp g (pixel # rest) i) (groupRef g)"
    using place_wave_Cons [of M sp g rest i _ pixel]
    by (cases "groupRef g") (simp_all add: wave_after_set_position)
  finally show ?case by simp
qed

section \<open>The claims on the grid\<close>






text \<open>The reset puts the grid into a state of the reveal, and leaves pixels and width.\<close>

lemma reveal_inv_reset:
  "fileChangeCount g \<noteq> prevFileChangeCountRef g \<Longrightarrow> reveal_inv (useEffect_reset g)"
  by (simp add: useEffect_reset_def reveal_inv_def map_replicate_trivial)

lemma reset_keeps: "pixels (useEffect_reset g) = pixels g" "pixelWidth (useEffect_reset g) = pixelWidth g"
  by (simp_all add: useEffect_reset_def)

text \<open>
  While the grid keeps the pixels it had at the reset, the reset hides every cell: every
  scale, the accumulator and the batch counter are 0, and after any run of frames a cell is
  shown exactly when a batch revealed since the reset contains it.
\<close>

lemma reset_then_frames:
  assumes "fileChangeCount g \<noteq> prevFileChangeCountRef g"
  shows "scales (useEffect_reset g) = replicate (length (pixels g)) (Some 0) \<and>
         scaleProgressRef (useEffect_reset g) = 0 \<and>
         batchIndexRef (useEffect_reset g) = 0 \<and>
         prevFileChangeCountRef (useEffect_reset g) = fileChangeCount g \<and>
         (\<forall>M deltas g'. render_frames M deltas (useEffect_reset g) = Inr g' \<longrightarrow>
            (\<forall>i. i < length (pixels g) \<longrightarrow>
               js_nth (scales g') i =
                 (if i < batchIndexRef g' * pixelWidth g then Some 1 else Some 0)))"
proof -
  have "js_nth (scales g') i = (if i < batchIndexRef g' * pixelWidth g then Some 1 else Some 0)"
    if run: "render_frames M deltas (useEffect_reset g) = Inr g'" and i: "i < length (pixels g)"
    for M deltas g' i
  proof -
    from render_frames_keeps [OF run] reveal_inv_reset [OF assms]
    have "pixels g' = pixels g" "pixelWidth g' = pixelWidth g" "reveal_inv g'"
      by (simp_all add: reset_keeps)
    with i show ?thesis by (simp add: reveal_inv_def js_nth_def)
  qed
  with assms show ?thesis by (simp add: useEffect_reset_def)
qed

text \<open>
  C6 fails on the code once the new pixels arrive. The reset has run for the three cells
  of the old image; the pixels of the new image arrive one frame later, the guard of the
  effect is false (the counter has been seen), and nothing is reset for them: the first
  batch of the new image is at scale 1 the moment it arrives, the accumulator and the
  batch counter are not 0, and the fourth cell has no scale at all. The fourth cell has
  none either when no frame is rendered in between.
\<close>

theorem new_pixels_arrive_unreset:
  "scales (render_fileChangeCount 2 revealed_grid) = [Some 0, Some 0, Some 0] \<and>
   map_sum id (\<lambda>g. (length (pixels g), scales g, batchIndexRef g, scaleProgressRef g))
     (image_change [1 / 60]) = Inr (4, [Some 1, Some 1, Some 0], 1, 1 / 60) \<and>
   map_sum id (\<lambda>g. js_nth (scales g) 3) (image_change [1 / 60]) = Inr None \<and>
   map_sum id (\<lambda>g. (scales g, js_nth (scales g) 3)) (image_change []) =
     Inr ([Some 0, Some 0, Some 0], None)"
  by (simp add: image_change_def render_pixels_def render_fileChangeCount_def render_frame_def
        useEffect_reset_def useFrame_reveal_def useFrame_move_def restart_progress_def
        batch_count_def reveal_threshold_def fill_loop.simps js_store_def js_nth_def
        revealed_grid_def example_grid_def four_pixels_def ANIMATION_TIME_def Let_def)

text \<open>
  C9. No effect and no frame handler writes to the \<open>pixels\<close> array: after the reset, after
  a frame of either handler and after any run of frames, \<open>pixels\<close> is what it was, so it
  still is what the sampler returned. The second handler changes nothing but its two refs
  and the positions in the scene.
\<close>

theorem pixels_never_mutated:
  "pixels (useEffect_reset g) = pixels g \<and>
   pixels (useFrame_reveal delta g) = pixels g \<and>
   (\<forall>g'. useFrame_move M delta g = Inr g' \<longrightarrow> pixels g' = pixels g \<and> reveal_part g' = reveal_part g) \<and>
   (\<forall>deltas g'. render_frames M deltas g = Inr g' \<longrightarrow>
      pixels g' = pixels g \<and>
      (\<forall>ctx (img :: 'img) w h. createPixelData ctx img w h = Inr (pixels g) \<longrightarrow>
         createPixelData ctx img w h = Inr (pixels g')))"
proof -
  have "pixels g' = pixels g \<and> reveal_part g' = reveal_part g"
    if "useFrame_move M delta g = Inr g'" for g'
    using useFrame_move_reveal_part [OF that] reveal_part_fields(1) by blast
  moreover have "pixels g' = pixels g" if "render_frames M deltas g = Inr g'" for deltas g'
    using render_frames_keeps [OF that] by simp
  ultimately show ?thesis
    by (simp add: reset_keeps pixels_useFrame_reveal)
qed


lemma example_explosion_frame:
  "\<not> isl (render_frames example_math [1 / 60, 1 / 60] (example_grid\<lparr>animation := ''explosion_start''\<rparr>))"
  by (simp add: render_frame_def useFrame_reveal_def useFrame_move_def restart_progress_def
        advance_progress_def move_pixel_def set_position_def batch_count_def reveal_threshold_def
        fill_loop.simps js_store_def example_grid_def example_math_def ANIMATION_TIME_def Let_def)

theorem pixels_never_mutated_witness:
  "pixels (useFrame_reveal (1 / 60) example_grid) = pixels example_grid \<and>
   (\<exists>g'. render_frames example_math [1 / 60, 1 / 60] (example_grid\<lparr>animation := ''explosion_start''\<rparr>) = Inr g' \<and>
      pixels g' = pixels example_grid)"
proof -
  from example_explosion_frame obtain g' where
    run: "render_frames example_math [1 / 60, 1 / 60] (example_grid\<lparr>animation := ''explosion_start''\<rparr>) = Inr g'"
    by (cases "render_frames example_math [1 / 60, 1 / 60] (example_grid\<lparr>animation := ''explosion_start''\<rparr>)") simp_all
  note t = pixels_never_mutated [of "example_grid\<lparr>animation := ''explosion_start''\<rparr>" "1 / 60" example_math]
  from t run have "pixels g' = pixels (example_grid\<lparr>animation := ''explosion_start''\<rparr>)" by blast
  moreover from pixels_never_mutated [of example_grid "1 / 60" example_math]
  have "pixels (useFrame_reveal (1 / 60) example_grid) = pixels example_grid" by blast
  ultimately show ?thesis using run by simp
qed

text \<open>What the wave modes keep, and the x and y of a wave position.\<close>

lemma wave_progress [simp]:
  "is_wave (restart_progress g) = is_wave g"
  "is_wave (advance_progress delta g) = is_wave g"
  "pixels (restart_progress g) = pixels g"
  "pixels (advance_progress delta g) = pixels g"
  "groupRef (restart_progress g) = groupRef g"
  "groupRef (advance_progress delta g) = groupRef g"
  "animation (restart_progress g) = animation g"
  by (simp_all add: is_wave_def restart_progress_def advance_progress_def Let_def)

lemma wave_target_xy:
  "fst (wave_target M sp g pixel) = pixel_x pixel"
  "fst (snd (wave_target M sp g pixel)) = pixel_y pixel"
  by (simp_all add: wave_target_def)

lemma place_wave_nth:
  "i < length ch \<Longrightarrow>
   place_wave M sp g ps 0 ch ! i = (if i < length ps then wave_target M sp g (ps ! i) else ch ! i)"
  by (simp add: place_wave_def)

text \<open>
  C10. In the modes \<^verbatim>\<open>"wave_start"\<close> and \<^verbatim>\<open>"wave_end"\<close> a frame of the second handler
  returns, and the position it writes for a pixel has the x and the y of the pixel: only
  z can differ from the rest position. Children of the group beyond the pixels keep
  their position.
\<close>

theorem wave_moves_only_z:
  assumes "animation g = ''wave_start'' \<or> animation g = ''wave_end''"
  shows "\<exists>g'. useFrame_move M delta g = Inr g' \<and> pixels g' = pixels g \<and>
           (groupRef g = None \<longrightarrow> groupRef g' = None) \<and>
           (\<forall>ch. groupRef g = Some ch \<longrightarrow>
              (\<exists>ch'. groupRef g' = Some ch' \<and> length ch' = length ch \<and>
                 (\<forall>i. i < length ch \<and> i < length (pixels g) \<longrightarrow>
                    fst (ch' ! i) = pixel_x (pixels g ! i) \<and>
                    fst (snd (ch' ! i)) = pixel_y (pixels g ! i)) \<and>
                 (\<forall>i. i < length ch \<and> length (pixels g) \<le> i \<longrightarrow> ch' ! i = ch ! i)))"
proof -
  let ?g2 = "advance_progress delta (restart_progress g)"
  let ?sp = "Math_sin M (animationProgressRef ?g2 * Math_PI M / 2)"
  let ?g' = "?g2\<lparr>groupRef := map_option (place_wave M ?sp ?g2 (pixels ?g2) 0) (groupRef ?g2)\<rparr>"
  from assms have wave: "is_wave g" by (simp add: is_wave_def)
  then have wave2: "is_wave ?g2" by simp
  from assms have "animation g \<noteq> ''default''" by auto
  then have run: "useFrame_move M delta g = Inr ?g'"
    by (simp add: useFrame_move_def Let_def forEach_wave [OF wave2])
  have px: "pixels ?g' = pixels g" by simp
  have none: "groupRef g = None \<longrightarrow> groupRef ?g' = None" by simp
  have some: "\<exists>ch'. groupRef ?g' = Some ch' \<and> length ch' = length ch \<and>
                 (\<forall>i. i < length ch \<and> i < length (pixels g) \<longrightarrow>
                    fst (ch' ! i) = pixel_x (pixels g ! i) \<and>
                    fst (snd (ch' ! i)) = pixel_y (pixels g ! i)) \<and>
                 (\<forall>i. i < length ch \<and> length (pixels g) \<le> i \<longrightarrow> ch' ! i = ch ! i)"
    if ch: "groupRef g = Some ch" for ch
  proof (intro exI [of _ "place_wave M ?sp ?g2 (pixels g) 0 ch"] conjI allI impI)
    show "groupRef ?g' = Some (place_wave M ?sp ?g2 (pixels g) 0 ch)"
      using ch by simp
    show "length (place_wave M ?sp ?g2 (pixels g) 0 ch) = length ch"
      by (simp add: place_wave_def)
  next
    fix i assume "i < length ch \<and> i < length (pixels g)"
    then show "fst (place_wave M ?sp ?g2 (pixels g) 0 ch ! i) = pixel_x (pixels g ! i)"
      "fst (snd (place_wave M ?sp ?g2 (pixels g) 0 ch ! i)) = pixel_y (pixels g ! i)"
      by (simp_all add: place_wave_nth wave_target_xy)
  next
    fix i assume "i < length ch \<and> length (pixels g) \<le> i"
    then show "place_wave M ?sp ?g2 (pixels g) 0 ch ! i = ch ! i"
      by (simp add: place_wave_nth)
  qed
  show ?thesis
  proof (intro exI [of _ ?g'] conjI allI impI)
    show "useFrame_move M delta g = Inr ?g'" by (rule run)
    show "pixels ?g' = pixels g" by (rule px)
    assume "groupRef g = None" with none show "groupRef ?g' = None" by (rule mp)
  next
    fix ch assume "groupRef g = Some ch"
    then show "\<exists>ch'. groupRef ?g' = Some ch' \<and> length ch' = length ch \<and>
                 (\<forall>i. i < length ch \<and> i < length (pixels g) \<longrightarrow>
                    fst (ch' ! i) = pixel_x (pixels g ! i) \<and>
                    fst (snd (ch' ! i)) = pixel_y (pixels g ! i)) \<and>
                 (\<forall>i. i < length ch \<and> length (pixels g) \<le> i \<longrightarrow> ch' ! i = ch ! i)"
      by (rule some)
  qed
qed

theorem wave_moves_only_z_witness:
  "\<exists>g' ch'. useFrame_move example_math (3 / 2) (example_grid\<lparr>animation := ''wave_start''\<rparr>) = Inr g' \<and>
      groupRef g' = Some ch' \<and> length ch' = 3 \<and>
      fst (ch' ! 0) = -1 \<and> fst (snd (ch' ! 0)) = 1 \<and>
      fst (ch' ! 2) = -1 \<and> fst (snd (ch' ! 2)) = 0"
proof -
  let ?G = "example_grid\<lparr>animation := ''wave_start''\<rparr>"
  have h: "animation ?G = ''wave_start'' \<or> animation ?G = ''wave_end''" by simp
  have g: "groupRef ?G = Some [(-1, 1, 0), (0, 1, 0), (-1, 0, 0)]"
    "pixels ?G =
        [\<lparr>pixel_x = -1, pixel_y = 1, pixel_z = 0, color = Color (Num 1) (Num 0) (Num 0)\<rparr>,
         \<lparr>pixel_x = 0, pixel_y = 1, pixel_z = 0, color = Color (Num 0) (Num 1) (Num 0)\<rparr>,
         \<lparr>pixel_x = -1, pixel_y = 0, pixel_z = 0, color = Color (Num 0) (Num 0) (Num 1)\<rparr>]"
    by (simp_all add: example_grid_def)
  from wave_moves_only_z [OF h, of example_math "3 / 2"] g(1) obtain g' ch' where
    run: "useFrame_move example_math (3 / 2) ?G = Inr g'"
    and ch': "groupRef g' = Some ch'" "length ch' = length [(-1, 1, 0), (0, 1, 0), (-1::rat, 0::rat, 0::rat)]"
    and xy: "\<forall>i. i < length [(-1, 1, 0), (0, 1, 0), (-1::rat, 0::rat, 0::rat)] \<and> i < length (pixels ?G) \<longrightarrow>
                    fst (ch' ! i) = pixel_x (pixels ?G ! i) \<and>
                    fst (snd (ch' ! i)) = pixel_y (pixels ?G ! i)"
    by blast
  from xy [THEN spec, of 0] xy [THEN spec, of 2]
  have "fst (ch' ! 0) = -1 \<and> fst (snd (ch' ! 0)) = 1 \<and> fst (ch' ! 2) = -1 \<and> fst (snd (ch' ! 2)) = 0"
    by (simp add: g(2))
  with run ch' show ?thesis by simp
qed

end
